theory Spec2Isabelle
  imports Main "HOL-Library.Sublist"
begin

section \<open>The MySQL database plugin (plugins/database/mysql/mysql.go)\<close>

text \<open>
  The plugin creates, rotates and revokes database accounts by running templated SQL
  statements in one transaction on a shared connection. Everything outside the file
  (the connection producer and its mutex, the \<open>database/sql\<close> handle, the username
  generator) is an environment that answers calls; the calls an operation makes are
  recorded, in order, in a trace. A function of the source that has effects takes the
  trace so far and returns its result with the extended trace.
\<close>

subsection \<open>Errors, panics and results\<close>

datatype error =
    ErrEmptyCreationStatement  \<comment> \<open>\<open>dbutil.ErrEmptyCreationStatement\<close>\<close>
  | ErrorString string  \<comment> \<open>\<open>errors.New(text)\<close>, \<open>fmt.Errorf(text)\<close>\<close>
  | MySQLError nat string  \<comment> \<open>\<open>*stdmysql.MySQLError\<close>: Number and Message\<close>
  | DriverError string  \<comment> \<open>any other error of the driver or the connection producer\<close>
  | Wrapf string error  \<comment> \<open>\<open>errwrap.Wrapf(format, err)\<close>, \<open>fmt.Errorf(format with %w, err)\<close>\<close>

datatype panic = NilPointerDereference

text \<open>A call of a Go function either returns its values or panics.\<close>

datatype 'a result = Returns 'a | Panics panic

subsection \<open>Strings\<close>

text \<open>
  Go strings are byte sequences. \<open>isSpace\<close> is \<open>unicode.IsSpace\<close> on the one-byte
  (ASCII) code points: tab, line feed, vertical tab, form feed, carriage return, space.
  The white space beyond ASCII (U+0085, U+00A0 and others, several bytes each in
  UTF-8), which \<open>strings.TrimSpace\<close> removes as well, is not modelled: the strings
  here are ASCII text as far as trimming goes.
\<close>

definition isSpace :: "char \<Rightarrow> bool" where
  "isSpace c = (c = CHR 0x09 \<or> c = CHR 0x0A \<or> c = CHR 0x0B \<or> c = CHR 0x0C \<or> c = CHR 0x0D \<or> c = CHR 0x20)"

text \<open>\<open>strings.TrimSpace\<close>: leading and trailing white space removed.\<close>

definition TrimSpace :: "string \<Rightarrow> string" where
  "TrimSpace s = rev (dropWhile isSpace (rev (dropWhile isSpace s)))"

text \<open>
  \<open>strings.Replace(s, old, new, -1)\<close>: every non-overlapping occurrence of \<open>old\<close>,
  found from the left, becomes \<open>new\<close>. (For an empty \<open>old\<close> Go inserts \<open>new\<close>
  before every character and at the end; the plugin never passes one.)
\<close>

fun Replace :: "string \<Rightarrow> string \<Rightarrow> string \<Rightarrow> string" where
  "Replace [] old new = (if old = [] then new else [])"
| "Replace (c # s) old new =
     (if old = [] then new @ c # Replace s old new
      else if prefix old (c # s) then new @ Replace (drop (length old) (c # s)) old new
      else c # Replace s old new)"

text \<open>
  Modelled from the spec: \<open>strutil.ParseArbitraryStringSlice(input, sep)\<close> lives in
  \<open>sdk/helper/strutil\<close>, which is not among the source files. Spec 4.2: the statements
  are obtained "by splitting every template on \<open>;\<close>", and "splitting is textual
  (semicolon-delimited), not SQL-aware". The pieces between the separators are returned
  in order (one more piece than there are separators).
\<close>

fun ParseArbitraryStringSlice :: "string \<Rightarrow> char \<Rightarrow> string list" where
  "ParseArbitraryStringSlice [] sep = [[]]"
| "ParseArbitraryStringSlice (c # s) sep =
     (if c = sep then [] # ParseArbitraryStringSlice s sep
      else (case ParseArbitraryStringSlice s sep of
              [] \<Rightarrow> [[c]]
            | w # ws \<Rightarrow> (c # w) # ws))"

text \<open>
  Modelled from the spec: \<open>dbutil.QueryHelper(tpl, data)\<close> lives in
  \<open>sdk/database/helper/dbutil\<close>, which is not among the source files. Spec 4.2:
  "Substitution is literal string replacement of every occurrence of \<open>{{key}}\<close> for
  every key present in the map; keys absent from the map are left as literal
  \<open>{{key}}\<close> text". The Go map literal is an association list with distinct keys; the
  keys are substituted one after the other, in the order of the list.
\<close>

definition QueryHelper :: "string \<Rightarrow> (string \<times> string) list \<Rightarrow> string" where
  "QueryHelper tpl data = foldl (\<lambda>t (k, v). Replace t (''{{'' @ k @ ''}}'') v) tpl data"

subsection \<open>Constants of the package\<close>

text \<open>The single quote, as a string.\<close>

definition sq :: string where
  "sq = [CHR 0x27]"

definition defaultMysqlRevocationStmts :: string where
  "defaultMysqlRevocationStmts =
     [CHR 0x0A, CHR 0x09, CHR 0x09]
     @ ''REVOKE ALL PRIVILEGES, GRANT OPTION FROM '' @ sq @ ''{{name}}'' @ sq @ ''@'' @ sq @ ''%'' @ sq @ ''; ''
     @ [CHR 0x0A, CHR 0x09, CHR 0x09]
     @ ''DROP USER '' @ sq @ ''{{name}}'' @ sq @ ''@'' @ sq @ ''%'' @ sq
     @ [CHR 0x0A, CHR 0x09]"

definition defaultMySQLRotateCredentialsSQL :: string where
  "defaultMySQLRotateCredentialsSQL =
     [CHR 0x0A, CHR 0x09, CHR 0x09]
     @ ''ALTER USER '' @ sq @ ''{{username}}'' @ sq @ ''@'' @ sq @ ''%'' @ sq
     @ '' IDENTIFIED BY '' @ sq @ ''{{password}}'' @ sq @ '';''
     @ [CHR 0x0A, CHR 0x09]"

definition mySQLTypeName :: string where
  "mySQLTypeName = ''mysql''"

text \<open>
  The length budgets of the two username schemes (modern: \<open>v_\<close>, display name,
  metadata, suffix in 32 characters; legacy: in 16). They are package variables with
  these initial values; nothing in the file assigns them.
\<close>

definition DisplayNameLen :: int where "DisplayNameLen = 13"
definition LegacyDisplayNameLen :: int where "LegacyDisplayNameLen = 5"
definition MetadataLen :: int where "MetadataLen = 10"
definition LegacyMetadataLen :: int where "LegacyMetadataLen = 4"
definition UsernameLen :: int where "UsernameLen = 32"
definition LegacyUsernameLen :: int where "LegacyUsernameLen = 16"

subsection \<open>The environment: mutex, connection producer, driver, username generator\<close>

text \<open>
  The options \<open>credsutil.DisplayName(name, maxLength)\<close>, \<open>credsutil.RoleName(name,
  maxLength)\<close> and \<open>credsutil.MaxLength(maxLength)\<close> handed to
  \<open>credsutil.GenerateUsername\<close>.
\<close>

datatype UsernameOpt =
    credsutil_DisplayName string int
  | credsutil_RoleName string int
  | credsutil_MaxLength int

text \<open>
  The calls the plugin makes on its collaborators: the mutex of the connection producer
  (\<open>m.Lock()\<close>, \<open>m.Unlock()\<close>), the producer's \<open>Connection(ctx)\<close>, the username
  generator, and \<open>database/sql\<close>: \<open>db.BeginTx\<close>, \<open>tx.PrepareContext(ctx, query)\<close>,
  \<open>tx.ExecContext(ctx, query)\<close>, \<open>stmt.ExecContext(ctx)\<close> and \<open>stmt.Close()\<close> of the
  statement prepared from \<open>query\<close>, \<open>tx.Commit()\<close>, \<open>tx.Rollback()\<close>.
\<close>

datatype call =
    Lock
  | Unlock
  | Connection
  | GenerateUsername "UsernameOpt list"
  | BeginTx
  | PrepareContext string
  | TxExecContext string
  | StmtExecContext string
  | StmtClose string
  | Commit
  | Rollback

text \<open>
  The environment answers a call with an error or with success (\<open>None\<close>, Go's \<open>nil\<close>);
  the answer may depend on every call made before (the database is stateful, the
  generator draws on the clock and on random bits). \<open>generated\<close> is the name a
  successful \<open>GenerateUsername\<close> returns.
\<close>

record env =
  respond :: "call list \<Rightarrow> call \<Rightarrow> error option"
  generated :: "call list \<Rightarrow> UsernameOpt list \<Rightarrow> string"

definition invoke :: "env \<Rightarrow> call \<Rightarrow> call list \<Rightarrow> error option \<times> call list" where
  "invoke env c tr = (respond env tr c, tr @ [c])"

text \<open>A prepared statement handle (\<open>*sql.Stmt\<close>); \<open>None\<close> is the nil pointer.\<close>

datatype Stmt = Stmt string

text \<open>
  \<open>tx.PrepareContext\<close> returns the handle and a nil error, or a nil handle and the
  error (\<open>database/sql\<close>: \<open>return nil, err\<close>).
\<close>

definition tx_PrepareContext :: "env \<Rightarrow> string \<Rightarrow> call list \<Rightarrow> (Stmt option \<times> error option) \<times> call list" where
  "tx_PrepareContext env query tr =
     (case invoke env (PrepareContext query) tr of
        (None, tr') \<Rightarrow> ((Some (Stmt query), None), tr')
      | (Some err, tr') \<Rightarrow> ((None, Some err), tr'))"

definition tx_ExecContext :: "env \<Rightarrow> string \<Rightarrow> call list \<Rightarrow> error option \<times> call list" where
  "tx_ExecContext env query tr = invoke env (TxExecContext query) tr"

text \<open>
  The methods of \<open>*sql.Stmt\<close> read the fields of their receiver first
  (\<open>s.closemu.Lock()\<close>): on a nil handle they panic with a nil pointer dereference,
  before anything reaches the driver.
\<close>

definition stmt_ExecContext :: "env \<Rightarrow> Stmt option \<Rightarrow> call list \<Rightarrow> error option result \<times> call list" where
  "stmt_ExecContext env stmt tr =
     (case stmt of
        None \<Rightarrow> (Panics NilPointerDereference, tr)
      | Some (Stmt query) \<Rightarrow>
          (case invoke env (StmtExecContext query) tr of (err, tr') \<Rightarrow> (Returns err, tr')))"

definition stmt_Close :: "env \<Rightarrow> Stmt option \<Rightarrow> call list \<Rightarrow> error option result \<times> call list" where
  "stmt_Close env stmt tr =
     (case stmt of
        None \<Rightarrow> (Panics NilPointerDereference, tr)
      | Some (Stmt query) \<Rightarrow>
          (case invoke env (StmtClose query) tr of (err, tr') \<Rightarrow> (Returns err, tr')))"

subsection \<open>The plugin\<close>

text \<open>
  The instance: the naming scheme chosen at construction. (Its other field, the
  connection producer, is the environment. \<open>New\<close> wraps \<open>new(legacy)\<close> in the
  error-sanitizing middleware of \<open>dbplugin\<close>, which is outside the file.)
\<close>

record MySQL =
  legacy :: bool

definition new :: "bool \<Rightarrow> MySQL" where
  "new l = \<lparr>legacy = l\<rparr>"

definition Type :: "MySQL \<Rightarrow> string \<times> error option" where
  "Type m = (mySQLTypeName, None)"

text \<open>
  \<open>getConnection\<close>: the producer's \<open>Connection(ctx)\<close>, whose handle is the shared
  \<open>*sql.DB\<close> (the type assertion of the source holds for this producer).
\<close>

definition getConnection :: "MySQL \<Rightarrow> env \<Rightarrow> call list \<Rightarrow> error option \<times> call list" where
  "getConnection m env tr = invoke env Connection tr"

definition is1295 :: "error \<Rightarrow> bool" where
  "is1295 err = (case err of MySQLError number message \<Rightarrow> number = 1295 | _ \<Rightarrow> False)"

text \<open>
  The inner loop of \<open>executePreparedStatementsWithMap\<close>, over the queries of one
  statement template. \<open>Returns None\<close>: the loop ran to its end; \<open>Returns (Some err)\<close>:
  the function returned \<open>err\<close> from inside the loop.
\<close>

fun query_loop :: "env \<Rightarrow> (string \<times> string) list \<Rightarrow> string list \<Rightarrow> call list \<Rightarrow> error option result \<times> call list" where
  "query_loop env queryMap [] tr = (Returns None, tr)"
| "query_loop env queryMap (query # rest) tr =
     (let query = TrimSpace query in
      if length query = 0 then query_loop env queryMap rest tr
      else
        let query = QueryHelper query queryMap in
        case tx_PrepareContext env query tr of
          ((stmt, Some err), tr1) \<Rightarrow>
            (if is1295 err then
               (case tx_ExecContext env query tr1 of
                  (Some err, tr2) \<Rightarrow>
                    (case stmt_Close env stmt tr2 of
                       (Panics p, tr3) \<Rightarrow> (Panics p, tr3)
                     | (Returns _, tr3) \<Rightarrow> (Returns (Some err), tr3))
                | (None, tr2) \<Rightarrow> query_loop env queryMap rest tr2)
             else (Returns (Some err), tr1))
        | ((stmt, None), tr1) \<Rightarrow>
            (case stmt_ExecContext env stmt tr1 of
               (Panics p, tr2) \<Rightarrow> (Panics p, tr2)
             | (Returns (Some err), tr2) \<Rightarrow>
                 (case stmt_Close env stmt tr2 of
                    (Panics p, tr3) \<Rightarrow> (Panics p, tr3)
                  | (Returns _, tr3) \<Rightarrow> (Returns (Some err), tr3))
             | (Returns None, tr2) \<Rightarrow>
                 (case stmt_Close env stmt tr2 of
                    (Panics p, tr3) \<Rightarrow> (Panics p, tr3)
                  | (Returns _, tr3) \<Rightarrow> query_loop env queryMap rest tr3)))"

text \<open>The outer loop, over the statement templates.\<close>

fun stmt_loop :: "env \<Rightarrow> (string \<times> string) list \<Rightarrow> string list \<Rightarrow> call list \<Rightarrow> error option result \<times> call list" where
  "stmt_loop env queryMap [] tr = (Returns None, tr)"
| "stmt_loop env queryMap (stmt # rest) tr =
     (case query_loop env queryMap (ParseArbitraryStringSlice stmt (CHR '';'')) tr of
        (Returns None, tr') \<Rightarrow> stmt_loop env queryMap rest tr'
      | (Returns (Some err), tr') \<Rightarrow> (Returns (Some err), tr')
      | (Panics p, tr') \<Rightarrow> (Panics p, tr'))"

text \<open>
  The deferred calls run when the function returns and when it panics, last deferred
  first: \<open>_ = tx.Rollback()\<close> (its error dropped), then \<open>m.Unlock()\<close>.
\<close>

definition deferred_Rollback :: "env \<Rightarrow> call list \<Rightarrow> call list" where
  "deferred_Rollback env tr = snd (invoke env Rollback tr)"

definition deferred_Unlock :: "call list \<Rightarrow> call list" where
  "deferred_Unlock tr = tr @ [Unlock]"

definition executePreparedStatementsWithMap ::
  "MySQL \<Rightarrow> env \<Rightarrow> string list \<Rightarrow> (string \<times> string) list \<Rightarrow> call list \<Rightarrow> error option result \<times> call list" where
  "executePreparedStatementsWithMap m env statements queryMap tr =
     (let tr0 = tr @ [Lock] in
      case getConnection m env tr0 of
        (Some err, tr1) \<Rightarrow> (Returns (Some err), deferred_Unlock tr1)
      | (None, tr1) \<Rightarrow>
          (case invoke env BeginTx tr1 of
             (Some err, tr2) \<Rightarrow> (Returns (Some err), deferred_Unlock tr2)
           | (None, tr2) \<Rightarrow>
               (case stmt_loop env queryMap statements tr2 of
                  (Panics p, tr3) \<Rightarrow> (Panics p, deferred_Unlock (deferred_Rollback env tr3))
                | (Returns (Some err), tr3) \<Rightarrow>
                    (Returns (Some err), deferred_Unlock (deferred_Rollback env tr3))
                | (Returns None, tr3) \<Rightarrow>
                    (case invoke env Commit tr3 of
                       (Some err, tr4) \<Rightarrow>
                         (Returns (Some err), deferred_Unlock (deferred_Rollback env tr4))
                     | (None, tr4) \<Rightarrow>
                         (Returns None, deferred_Unlock (deferred_Rollback env tr4))))))"

subsection \<open>Requests and responses (\<open>dbplugin\<close>, version 5)\<close>

text \<open>
  \<open>time.Time\<close>, as \<open>Format\<close> reads it: the civil date and clock time in the
  value's location, and the offset of that location in seconds east of UTC.
\<close>

record Time =
  year :: int
  month :: nat
  day :: nat
  hour :: nat
  minute :: nat
  second :: nat
  offset :: int

record Statements =
  Commands :: "string list"

record UsernameMetadata =
  DisplayName :: string
  RoleName :: string

record NewUserRequest =
  UsernameConfig :: UsernameMetadata
  Statements :: Statements
  RollbackStatements :: Statements
  Password :: string
  Expiration :: Time

record NewUserResponse =
  Username :: string

record ChangePassword =
  NewPassword :: string
  Statements :: Statements

record ChangeExpiration =
  NewExpiration :: Time
  Statements :: Statements

text \<open>\<open>Password\<close> and \<open>Expiration\<close> are pointers: \<open>None\<close> is nil.\<close>

record UpdateUserRequest =
  Username :: string
  Password :: "ChangePassword option"
  Expiration :: "ChangeExpiration option"

record DeleteUserRequest =
  Username :: string
  Statements :: Statements

text \<open>\<open>UpdateUserResponse\<close> and \<open>DeleteUserResponse\<close> are structs without fields.\<close>

type_synonym UpdateUserResponse = unit

type_synonym DeleteUserResponse = unit

text \<open>\<open>Config\<close> is a \<open>map[string]interface{}\<close>; \<open>None\<close> is the nil map.\<close>

record 'v InitializeRequest =
  Config :: "(string \<rightharpoonup> 'v) option"
  VerifyConnection :: bool

record 'v InitializeResponse =
  Config :: "(string \<rightharpoonup> 'v) option"

subsection \<open>Formatting the expiration\<close>

text \<open>
  \<open>time.appendInt(b, x, width)\<close>: the decimal digits of \<open>x\<close>, after a minus sign when
  \<open>x\<close> is negative, padded with zeros on the left to \<open>width\<close> digits.
\<close>

fun digits :: "nat \<Rightarrow> string" where
  "digits u =
     (if u < 10 then [char_of (48 + u)]
      else digits (u div 10) @ [char_of (48 + u mod 10)])"

declare digits.simps [simp del]

definition appendInt :: "int \<Rightarrow> nat \<Rightarrow> string" where
  "appendInt x width =
     (let ds = digits (nat \<bar>x\<bar>) in
      (if x < 0 then [CHR 0x2D] else []) @ replicate (width - length ds) (CHR 0x30) @ ds)"

text \<open>
  \<open>t.Format("2006-01-02 15:04:05-0700")\<close>, layout element by layout element: the year
  in four digits, the month, day, hour, minute and second in two, and the zone as a
  sign, the hours and the minutes of the offset (Go's division truncates towards zero).
\<close>

definition Format_2006_01_02_15_04_05_0700 :: "Time \<Rightarrow> string" where
  "Format_2006_01_02_15_04_05_0700 t =
     (let zone = (if offset t < 0 then - ((- offset t) div 60) else offset t div 60) in
      appendInt (year t) 4 @ ''-'' @ appendInt (int (month t)) 2 @ ''-'' @ appendInt (int (day t)) 2
      @ '' '' @ appendInt (int (hour t)) 2 @ '':'' @ appendInt (int (minute t)) 2
      @ '':'' @ appendInt (int (second t)) 2
      @ (if zone < 0 then ''-'' else ''+'')
      @ appendInt (\<bar>zone\<bar> div 60) 2 @ appendInt (\<bar>zone\<bar> mod 60) 2)"

subsection \<open>Initialize\<close>

text \<open>
  \<open>mySQLConnectionProducer.Initialize\<close> is in another file of the package; it is a
  parameter here.
\<close>

definition Initialize ::
  "MySQL \<Rightarrow> ((string \<rightharpoonup> 'v) option \<Rightarrow> bool \<Rightarrow> error option) \<Rightarrow> 'v InitializeRequest
     \<Rightarrow> 'v InitializeResponse \<times> error option" where
  "Initialize m producer_Initialize req =
     (case producer_Initialize (InitializeRequest.Config req) (VerifyConnection req) of
        Some err \<Rightarrow> (\<lparr>InitializeResponse.Config = None\<rparr>, Some err)
      | None \<Rightarrow> (\<lparr>InitializeResponse.Config = InitializeRequest.Config req\<rparr>, None))"

subsection \<open>NewUser\<close>

text \<open>
  \<open>credsutil.GenerateUsername(opts...)\<close> lives in \<open>sdk/database/helper/credsutil\<close>; what
  it returns is the environment's answer: the empty string with an error, or a name.
\<close>

definition credsutil_GenerateUsername ::
  "env \<Rightarrow> UsernameOpt list \<Rightarrow> call list \<Rightarrow> (string \<times> error option) \<times> call list" where
  "credsutil_GenerateUsername env opts tr =
     (case invoke env (GenerateUsername opts) tr of
        (Some err, tr') \<Rightarrow> (([], Some err), tr')
      | (None, tr') \<Rightarrow> ((generated env tr opts, None), tr'))"

definition generateUsername ::
  "MySQL \<Rightarrow> env \<Rightarrow> NewUserRequest \<Rightarrow> call list \<Rightarrow> (string \<times> error option) \<times> call list" where
  "generateUsername m env req tr =
     (let (dispNameLen, roleNameLen, maxLen) =
            (if legacy m then (LegacyDisplayNameLen, LegacyMetadataLen, LegacyUsernameLen)
             else (DisplayNameLen, MetadataLen, UsernameLen))
      in case credsutil_GenerateUsername env
                [credsutil_DisplayName (DisplayName (UsernameConfig req)) dispNameLen,
                 credsutil_RoleName (RoleName (UsernameConfig req)) roleNameLen,
                 credsutil_MaxLength maxLen] tr of
           ((username, Some err), tr') \<Rightarrow>
             (([], Some (Wrapf ''error generating username: {{err}}'' err)), tr')
         | ((username, None), tr') \<Rightarrow> ((username, None), tr'))"

definition NewUser ::
  "MySQL \<Rightarrow> env \<Rightarrow> NewUserRequest \<Rightarrow> call list
     \<Rightarrow> (NewUserResponse \<times> error option) result \<times> call list" where
  "NewUser m env req tr =
     (if length (Commands (NewUserRequest.Statements req)) = 0
      then (Returns (\<lparr>NewUserResponse.Username = []\<rparr>, Some ErrEmptyCreationStatement), tr)
      else
        case generateUsername m env req tr of
          ((username, Some err), tr1) \<Rightarrow>
            (Returns (\<lparr>NewUserResponse.Username = []\<rparr>, Some err), tr1)
        | ((username, None), tr1) \<Rightarrow>
            (let password = NewUserRequest.Password req;
                 expirationStr = Format_2006_01_02_15_04_05_0700 (NewUserRequest.Expiration req);
                 queryMap = [(''name'', username),
                             (''username'', username),
                             (''password'', password),
                             (''expiration'', expirationStr)]
             in case executePreparedStatementsWithMap m env
                       (Commands (NewUserRequest.Statements req)) queryMap tr1 of
                  (Panics p, tr2) \<Rightarrow> (Panics p, tr2)
                | (Returns (Some err), tr2) \<Rightarrow>
                    (Returns (\<lparr>NewUserResponse.Username = []\<rparr>, Some err), tr2)
                | (Returns None, tr2) \<Rightarrow>
                    (Returns (\<lparr>NewUserResponse.Username = username\<rparr>, None), tr2)))"

subsection \<open>DeleteUser\<close>

text \<open>
  The loops of \<open>DeleteUser\<close>: every query is executed directly on the transaction.
  \<open>Some err\<close>: the function returned \<open>err\<close> from inside the loop.
\<close>

fun revocation_query_loop :: "env \<Rightarrow> string \<Rightarrow> string list \<Rightarrow> call list \<Rightarrow> error option \<times> call list" where
  "revocation_query_loop env username [] tr = (None, tr)"
| "revocation_query_loop env username (query # rest) tr =
     (let query = TrimSpace query in
      if length query = 0 then revocation_query_loop env username rest tr
      else
        let query = Replace query ''{{name}}'' username;
            query = Replace query ''{{username}}'' username
        in case tx_ExecContext env query tr of
             (Some err, tr1) \<Rightarrow> (Some err, tr1)
           | (None, tr1) \<Rightarrow> revocation_query_loop env username rest tr1)"

fun revocation_stmt_loop :: "env \<Rightarrow> string \<Rightarrow> string list \<Rightarrow> call list \<Rightarrow> error option \<times> call list" where
  "revocation_stmt_loop env username [] tr = (None, tr)"
| "revocation_stmt_loop env username (stmt # rest) tr =
     (case revocation_query_loop env username (ParseArbitraryStringSlice stmt (CHR '';'')) tr of
        (Some err, tr') \<Rightarrow> (Some err, tr')
      | (None, tr') \<Rightarrow> revocation_stmt_loop env username rest tr')"

definition DeleteUser ::
  "MySQL \<Rightarrow> env \<Rightarrow> DeleteUserRequest \<Rightarrow> call list \<Rightarrow> (DeleteUserResponse \<times> error option) \<times> call list" where
  "DeleteUser m env req tr =
     (let tr0 = tr @ [Lock] in
      case getConnection m env tr0 of
        (Some err, tr1) \<Rightarrow> (((), Some err), deferred_Unlock tr1)
      | (None, tr1) \<Rightarrow>
          (let revocationStmts = Commands (DeleteUserRequest.Statements req);
               revocationStmts =
                 (if length revocationStmts = 0 then [defaultMysqlRevocationStmts]
                  else revocationStmts)
           in case invoke env BeginTx tr1 of
                (Some err, tr2) \<Rightarrow> (((), Some err), deferred_Unlock tr2)
              | (None, tr2) \<Rightarrow>
                  (case revocation_stmt_loop env (DeleteUserRequest.Username req) revocationStmts tr2 of
                     (Some err, tr3) \<Rightarrow>
                       (((), Some err), deferred_Unlock (deferred_Rollback env tr3))
                   | (None, tr3) \<Rightarrow>
                       (case invoke env Commit tr3 of
                          (err, tr4) \<Rightarrow>
                            (((), err), deferred_Unlock (deferred_Rollback env tr4))))))"

subsection \<open>UpdateUser and changeUserPassword\<close>

definition changeUserPassword ::
  "MySQL \<Rightarrow> env \<Rightarrow> string \<Rightarrow> string \<Rightarrow> string list \<Rightarrow> call list \<Rightarrow> error option result \<times> call list" where
  "changeUserPassword m env username password rotateStatements tr =
     (if username = [] \<or> password = []
      then (Returns (Some (ErrorString ''must provide both username and password'')), tr)
      else
        let rotateStatements =
              (if length rotateStatements = 0 then [defaultMySQLRotateCredentialsSQL]
               else rotateStatements);
            queryMap = [(''name'', username),
                        (''username'', username),
                        (''password'', password)]
        in case executePreparedStatementsWithMap m env rotateStatements queryMap tr of
             (Panics p, tr') \<Rightarrow> (Panics p, tr')
           | (Returns (Some err), tr') \<Rightarrow> (Returns (Some err), tr')
           | (Returns None, tr') \<Rightarrow> (Returns None, tr'))"

definition UpdateUser ::
  "MySQL \<Rightarrow> env \<Rightarrow> UpdateUserRequest \<Rightarrow> call list
     \<Rightarrow> (UpdateUserResponse \<times> error option) result \<times> call list" where
  "UpdateUser m env req tr =
     (if UpdateUserRequest.Password req = None \<and> UpdateUserRequest.Expiration req = None
      then (Returns ((), Some (ErrorString ''no change requested'')), tr)
      else
        case UpdateUserRequest.Password req of
          Some pw \<Rightarrow>
            (case changeUserPassword m env (UpdateUserRequest.Username req) (NewPassword pw)
                    (Commands (ChangePassword.Statements pw)) tr of
               (Panics p, tr') \<Rightarrow> (Panics p, tr')
             | (Returns (Some err), tr') \<Rightarrow>
                 (Returns ((), Some (Wrapf ''failed to change password: %w'' err)), tr')
             | (Returns None, tr') \<Rightarrow> (Returns ((), None), tr'))
        | None \<Rightarrow> (Returns ((), None), tr))"

subsection \<open>Reading traces\<close>

text \<open>The calls that prepare, execute or close a statement.\<close>

definition is_stmt_call :: "call \<Rightarrow> bool" where
  "is_stmt_call c =
     (case c of
        PrepareContext q \<Rightarrow> True
      | TxExecContext q \<Rightarrow> True
      | StmtExecContext q \<Rightarrow> True
      | StmtClose q \<Rightarrow> True
      | _ \<Rightarrow> False)"

definition is_generate :: "call \<Rightarrow> bool" where
  "is_generate c = (case c of GenerateUsername opts \<Rightarrow> True | _ \<Rightarrow> False)"

text \<open>
  The lock discipline of a sequence of calls, read from the left with the state of the
  mutex: \<open>Lock\<close> only when it is free, \<open>Unlock\<close> only when it is held, every call
  on the connection or the database while it is held, and free again at the end.
\<close>

fun guarded :: "bool \<Rightarrow> call list \<Rightarrow> bool" where
  "guarded held [] = (\<not> held)"
| "guarded held (Lock # cs) = (\<not> held \<and> guarded True cs)"
| "guarded held (Unlock # cs) = (held \<and> guarded False cs)"
| "guarded held (GenerateUsername opts # cs) = guarded held cs"
| "guarded held (c # cs) = (held \<and> guarded held cs)"

subsection \<open>Environments used as examples\<close>

text \<open>Every call succeeds.\<close>

definition env_all_succeed :: env where
  "env_all_succeed =
     \<lparr>respond = (\<lambda>tr c. None),
      generated = (\<lambda>tr opts. ''v_token_readonly_x7Kp2mQ9'')\<rparr>"

text \<open>
  \<open>REVOKE ALL PRIVILEGES, GRANT OPTION\<close> is not supported by the prepared statement
  protocol (error 1295, the case the comment in \<open>DeleteUser\<close> describes), and its
  direct execution fails because the account does not exist (error 1269); every other
  statement is prepared and executed.
\<close>

definition env_revoke_fails :: env where
  "env_revoke_fails =
     \<lparr>respond = (\<lambda>tr c. case c of
          PrepareContext q \<Rightarrow>
            (if q = ''REVOKE ALL PRIVILEGES, GRANT OPTION FROM ghost''
             then Some (MySQLError 1295 ''This command is not supported in the prepared statement protocol yet'')
             else None)
        | TxExecContext q \<Rightarrow>
            Some (MySQLError 1269 ''Can't revoke all privileges for one or more of the requested users'')
        | _ \<Rightarrow> None),
      generated = (\<lambda>tr opts. ''v_token_readonly_x7Kp2mQ9'')\<rparr>"

section \<open>Properties\<close>

subsection \<open>The loops, step by step\<close>

lemma is_stmt_call_simps [simp]:
  "is_stmt_call (PrepareContext q)" "is_stmt_call (TxExecContext q)"
  "is_stmt_call (StmtExecContext q)" "is_stmt_call (StmtClose q)"
  "\<not> is_stmt_call Lock" "\<not> is_stmt_call Unlock" "\<not> is_stmt_call Connection"
  "\<not> is_stmt_call (GenerateUsername opts)" "\<not> is_stmt_call BeginTx"
  "\<not> is_stmt_call Commit" "\<not> is_stmt_call Rollback"
  by (simp_all add: is_stmt_call_def)

text \<open>
  One turn of the inner loop of the executor, with the calls on the statement handle
  resolved: what the environment answers decides the branch.
\<close>

lemma query_loop_step:
  "query_loop env queryMap (query # rest) tr =
     (if TrimSpace query = [] then query_loop env queryMap rest tr
      else
        let q = QueryHelper (TrimSpace query) queryMap in
        case respond env tr (PrepareContext q) of
          Some err \<Rightarrow>
            (if is1295 err then
               (case respond env (tr @ [PrepareContext q]) (TxExecContext q) of
                  Some err' \<Rightarrow>
                    (Panics NilPointerDereference, tr @ [PrepareContext q, TxExecContext q])
                | None \<Rightarrow>
                    query_loop env queryMap rest (tr @ [PrepareContext q, TxExecContext q]))
             else (Returns (Some err), tr @ [PrepareContext q]))
        | None \<Rightarrow>
            (case respond env (tr @ [PrepareContext q]) (StmtExecContext q) of
               Some err \<Rightarrow>
                 (Returns (Some err), tr @ [PrepareContext q, StmtExecContext q, StmtClose q])
             | None \<Rightarrow>
                 query_loop env queryMap rest
                   (tr @ [PrepareContext q, StmtExecContext q, StmtClose q])))"
  by (simp add: Let_def tx_PrepareContext_def tx_ExecContext_def stmt_ExecContext_def
      stmt_Close_def invoke_def split: option.splits)

declare query_loop.simps(2) [simp del]

lemma revocation_query_loop_step:
  "revocation_query_loop env username (query # rest) tr =
     (if TrimSpace query = [] then revocation_query_loop env username rest tr
      else
        let q = Replace (Replace (TrimSpace query) ''{{name}}'' username) ''{{username}}'' username in
        case respond env tr (TxExecContext q) of
          Some err \<Rightarrow> (Some err, tr @ [TxExecContext q])
        | None \<Rightarrow> revocation_query_loop env username rest (tr @ [TxExecContext q]))"
  by (simp add: Let_def tx_ExecContext_def invoke_def split: option.splits)

declare revocation_query_loop.simps(2) [simp del]

lemma executePreparedStatementsWithMap_step:
  "executePreparedStatementsWithMap m env statements queryMap tr =
     (case respond env (tr @ [Lock]) Connection of
        Some err \<Rightarrow> (Returns (Some err), tr @ [Lock, Connection, Unlock])
      | None \<Rightarrow>
          (case respond env (tr @ [Lock, Connection]) BeginTx of
             Some err \<Rightarrow> (Returns (Some err), tr @ [Lock, Connection, BeginTx, Unlock])
           | None \<Rightarrow>
               (case stmt_loop env queryMap statements (tr @ [Lock, Connection, BeginTx]) of
                  (Panics p, tr3) \<Rightarrow> (Panics p, tr3 @ [Rollback, Unlock])
                | (Returns (Some err), tr3) \<Rightarrow> (Returns (Some err), tr3 @ [Rollback, Unlock])
                | (Returns None, tr3) \<Rightarrow>
                    (Returns (respond env tr3 Commit), tr3 @ [Commit, Rollback, Unlock]))))"
  by (simp add: executePreparedStatementsWithMap_def getConnection_def invoke_def Let_def
      deferred_Unlock_def deferred_Rollback_def split: option.splits result.splits prod.splits)

lemma DeleteUser_step:
  "DeleteUser m env req tr =
     (case respond env (tr @ [Lock]) Connection of
        Some err \<Rightarrow> (((), Some err), tr @ [Lock, Connection, Unlock])
      | None \<Rightarrow>
          (case respond env (tr @ [Lock, Connection]) BeginTx of
             Some err \<Rightarrow> (((), Some err), tr @ [Lock, Connection, BeginTx, Unlock])
           | None \<Rightarrow>
               (case revocation_stmt_loop env (DeleteUserRequest.Username req)
                       (if Commands (DeleteUserRequest.Statements req) = []
                        then [defaultMysqlRevocationStmts]
                        else Commands (DeleteUserRequest.Statements req))
                       (tr @ [Lock, Connection, BeginTx]) of
                  (Some err, tr3) \<Rightarrow> (((), Some err), tr3 @ [Rollback, Unlock])
                | (None, tr3) \<Rightarrow>
                    (((), respond env tr3 Commit), tr3 @ [Commit, Rollback, Unlock]))))"
  by (simp add: DeleteUser_def getConnection_def invoke_def Let_def
      deferred_Unlock_def deferred_Rollback_def split: option.splits prod.splits)

subsection \<open>The loops only add statement calls to the trace\<close>

lemma query_loop_trace:
  "\<exists>ev. snd (query_loop env queryMap qs tr) = tr @ ev \<and> list_all is_stmt_call ev"
proof (induction qs arbitrary: tr)
  case Nil
  show ?case by simp
next
  case (Cons query rest)
  show ?case
  proof (cases "TrimSpace query = []")
    case True
    then show ?thesis using Cons.IH [of tr] by (simp add: query_loop_step)
  next
    case False
    define q where "q = QueryHelper (TrimSpace query) queryMap"
    obtain ev1 where ev1:
      "snd (query_loop env queryMap rest (tr @ [PrepareContext q, TxExecContext q])) =
         (tr @ [PrepareContext q, TxExecContext q]) @ ev1"
      "list_all is_stmt_call ev1"
      using Cons.IH by blast
    obtain ev2 where ev2:
      "snd (query_loop env queryMap rest (tr @ [PrepareContext q, StmtExecContext q, StmtClose q])) =
         (tr @ [PrepareContext q, StmtExecContext q, StmtClose q]) @ ev2"
      "list_all is_stmt_call ev2"
      using Cons.IH by blast
    show ?thesis
      using False ev1 ev2
      by (simp add: query_loop_step Let_def q_def [symmetric] split: option.splits)
  qed
qed

lemma stmt_loop_trace:
  "\<exists>ev. snd (stmt_loop env queryMap stmts tr) = tr @ ev \<and> list_all is_stmt_call ev"
proof (induction stmts arbitrary: tr)
  case Nil
  show ?case by simp
next
  case (Cons stmt rest)
  obtain r tr1 where q:
    "query_loop env queryMap (ParseArbitraryStringSlice stmt (CHR '';'')) tr = (r, tr1)"
    by (cases "query_loop env queryMap (ParseArbitraryStringSlice stmt (CHR '';'')) tr")
  obtain ev1 where ev1: "tr1 = tr @ ev1" "list_all is_stmt_call ev1"
    using query_loop_trace [of env queryMap "ParseArbitraryStringSlice stmt (CHR '';'')" tr] q
    by auto
  obtain ev2 where ev2:
    "snd (stmt_loop env queryMap rest tr1) = tr1 @ ev2" "list_all is_stmt_call ev2"
    using Cons.IH by blast
  show ?case
    using q ev1 ev2 by (simp split: result.splits option.splits)
qed

lemma revocation_query_loop_trace:
  "\<exists>ev. snd (revocation_query_loop env username qs tr) = tr @ ev \<and> list_all is_stmt_call ev"
proof (induction qs arbitrary: tr)
  case Nil
  show ?case by simp
next
  case (Cons query rest)
  show ?case
  proof (cases "TrimSpace query = []")
    case True
    then show ?thesis using Cons.IH [of tr] by (simp add: revocation_query_loop_step)
  next
    case False
    define q where
      "q = Replace (Replace (TrimSpace query) ''{{name}}'' username) ''{{username}}'' username"
    obtain ev1 where ev1:
      "snd (revocation_query_loop env username rest (tr @ [TxExecContext q])) =
         (tr @ [TxExecContext q]) @ ev1"
      "list_all is_stmt_call ev1"
      using Cons.IH by blast
    show ?thesis
      using False ev1
      by (simp add: revocation_query_loop_step Let_def q_def [symmetric] split: option.splits)
  qed
qed

lemma revocation_stmt_loop_trace:
  "\<exists>ev. snd (revocation_stmt_loop env username stmts tr) = tr @ ev \<and> list_all is_stmt_call ev"
proof (induction stmts arbitrary: tr)
  case Nil
  show ?case by simp
next
  case (Cons stmt rest)
  obtain r tr1 where q:
    "revocation_query_loop env username (ParseArbitraryStringSlice stmt (CHR '';'')) tr = (r, tr1)"
    by (cases "revocation_query_loop env username (ParseArbitraryStringSlice stmt (CHR '';'')) tr")
  obtain ev1 where ev1: "tr1 = tr @ ev1" "list_all is_stmt_call ev1"
    using revocation_query_loop_trace [of env username "ParseArbitraryStringSlice stmt (CHR '';'')" tr] q
    by auto
  obtain ev2 where ev2:
    "snd (revocation_stmt_loop env username rest tr1) = tr1 @ ev2" "list_all is_stmt_call ev2"
    using Cons.IH by blast
  show ?case
    using q ev1 ev2 by (simp split: option.splits)
qed

subsection \<open>Splitting, trimming, replacing\<close>




subsection \<open>Blank fragments\<close>








subsection \<open>The default templates\<close>














subsection \<open>What an operation adds to the trace\<close>

lemma executePreparedStatementsWithMap_trace:
  "\<exists>ev. list_all is_stmt_call ev \<and>
     snd (executePreparedStatementsWithMap m env statements queryMap tr) \<in>
       {tr @ [Lock, Connection, Unlock],
        tr @ [Lock, Connection, BeginTx, Unlock],
        tr @ [Lock, Connection, BeginTx] @ ev @ [Rollback, Unlock],
        tr @ [Lock, Connection, BeginTx] @ ev @ [Commit, Rollback, Unlock]}"
proof -
  obtain r tr3 where l: "stmt_loop env queryMap statements (tr @ [Lock, Connection, BeginTx]) = (r, tr3)"
    by (cases "stmt_loop env queryMap statements (tr @ [Lock, Connection, BeginTx])")
  obtain ev where ev: "tr3 = (tr @ [Lock, Connection, BeginTx]) @ ev" "list_all is_stmt_call ev"
    using stmt_loop_trace [of env queryMap statements "tr @ [Lock, Connection, BeginTx]"] l by auto
  show ?thesis
    using ev
    by (intro exI [of _ ev])
       (simp add: executePreparedStatementsWithMap_step l split: option.splits result.splits)
qed

lemma DeleteUser_trace:
  "\<exists>ev. list_all is_stmt_call ev \<and>
     snd (DeleteUser m env req tr) \<in>
       {tr @ [Lock, Connection, Unlock],
        tr @ [Lock, Connection, BeginTx, Unlock],
        tr @ [Lock, Connection, BeginTx] @ ev @ [Rollback, Unlock],
        tr @ [Lock, Connection, BeginTx] @ ev @ [Commit, Rollback, Unlock]}"
proof -
  define stmts where
    "stmts = (if Commands (DeleteUserRequest.Statements req) = []
              then [defaultMysqlRevocationStmts]
              else Commands (DeleteUserRequest.Statements req))"
  obtain r tr3 where l:
    "revocation_stmt_loop env (DeleteUserRequest.Username req) stmts (tr @ [Lock, Connection, BeginTx]) = (r, tr3)"
    by (cases "revocation_stmt_loop env (DeleteUserRequest.Username req) stmts (tr @ [Lock, Connection, BeginTx])")
  obtain ev where ev: "tr3 = (tr @ [Lock, Connection, BeginTx]) @ ev" "list_all is_stmt_call ev"
    using revocation_stmt_loop_trace [of env "DeleteUserRequest.Username req" stmts
        "tr @ [Lock, Connection, BeginTx]"] l by auto
  have d: "DeleteUser m env req tr =
      (case respond env (tr @ [Lock]) Connection of
         Some err \<Rightarrow> (((), Some err), tr @ [Lock, Connection, Unlock])
       | None \<Rightarrow>
           (case respond env (tr @ [Lock, Connection]) BeginTx of
              Some err \<Rightarrow> (((), Some err), tr @ [Lock, Connection, BeginTx, Unlock])
            | None \<Rightarrow>
                (case revocation_stmt_loop env (DeleteUserRequest.Username req) stmts
                        (tr @ [Lock, Connection, BeginTx]) of
                   (Some err, tr3) \<Rightarrow> (((), Some err), tr3 @ [Rollback, Unlock])
                 | (None, tr3) \<Rightarrow>
                     (((), respond env tr3 Commit), tr3 @ [Commit, Rollback, Unlock]))))"
    unfolding stmts_def by (rule DeleteUser_step)
  show ?thesis
    using ev
    by (intro exI [of _ ev]) (simp add: d l split: option.splits)
qed

lemma generateUsername_step:
  "generateUsername m env req tr =
     (let opts = [credsutil_DisplayName (DisplayName (UsernameConfig req))
                    (if legacy m then 5 else 13),
                  credsutil_RoleName (RoleName (UsernameConfig req))
                    (if legacy m then 4 else 10),
                  credsutil_MaxLength (if legacy m then 16 else 32)]
      in (case respond env tr (GenerateUsername opts) of
            Some err \<Rightarrow> ([], Some (Wrapf ''error generating username: {{err}}'' err))
          | None \<Rightarrow> (generated env tr opts, None),
          tr @ [GenerateUsername opts]))"
  by (cases "legacy m")
     (simp_all add: generateUsername_def credsutil_GenerateUsername_def invoke_def Let_def
        LegacyDisplayNameLen_def LegacyMetadataLen_def LegacyUsernameLen_def
        DisplayNameLen_def MetadataLen_def UsernameLen_def split: option.splits)

lemma filter_is_generate_stmt_calls:
  "list_all is_stmt_call ev \<Longrightarrow> filter is_generate ev = []"
  by (induction ev) (auto simp: is_generate_def is_stmt_call_def split: call.splits)

lemma executePreparedStatementsWithMap_generates_nothing:
  "\<exists>ev. snd (executePreparedStatementsWithMap m env statements queryMap tr) = tr @ ev
     \<and> filter is_generate ev = []"
proof -
  obtain ev where ev: "list_all is_stmt_call ev"
    "snd (executePreparedStatementsWithMap m env statements queryMap tr) \<in>
       {tr @ [Lock, Connection, Unlock],
        tr @ [Lock, Connection, BeginTx, Unlock],
        tr @ [Lock, Connection, BeginTx] @ ev @ [Rollback, Unlock],
        tr @ [Lock, Connection, BeginTx] @ ev @ [Commit, Rollback, Unlock]}"
    using executePreparedStatementsWithMap_trace by blast
  have g: "filter is_generate ev = []"
    using ev(1) by (rule filter_is_generate_stmt_calls)
  from ev(2) consider
      "snd (executePreparedStatementsWithMap m env statements queryMap tr) = tr @ [Lock, Connection, Unlock]"
    | "snd (executePreparedStatementsWithMap m env statements queryMap tr) = tr @ [Lock, Connection, BeginTx, Unlock]"
    | "snd (executePreparedStatementsWithMap m env statements queryMap tr) =
         tr @ [Lock, Connection, BeginTx] @ ev @ [Rollback, Unlock]"
    | "snd (executePreparedStatementsWithMap m env statements queryMap tr) =
         tr @ [Lock, Connection, BeginTx] @ ev @ [Commit, Rollback, Unlock]"
    by auto
  then show ?thesis
  proof cases
    case 1
    then show ?thesis by (simp add: is_generate_def)
  next
    case 2
    then show ?thesis by (simp add: is_generate_def)
  next
    case 3
    then show ?thesis using g by (simp add: is_generate_def)
  next
    case 4
    then show ?thesis using g by (simp add: is_generate_def)
  qed
qed

text \<open>
  C4. The budgets handed to the username generator are those of the scheme the
  instance was constructed with: display name 5, role name 4, total 16 for a legacy
  instance, and 13, 10, 32 otherwise. \<open>generateUsername\<close> makes exactly one call of
  the generator, with these three options; a \<open>NewUser\<close> that passes validation makes
  that call and no other, so no call of an instance carries budgets of the other
  scheme (the flag is set by \<open>new\<close> and no operation changes it).
\<close>

theorem generateUsername_scheme_budgets:
  "(let opts = [credsutil_DisplayName (DisplayName (UsernameConfig req)) (if l then 5 else 13),
               credsutil_RoleName (RoleName (UsernameConfig req)) (if l then 4 else 10),
               credsutil_MaxLength (if l then 16 else 32)]
    in snd (generateUsername (new l) env req tr) = tr @ [GenerateUsername opts]
     \<and> filter is_generate (drop (length tr) (snd (NewUser (new l) env req tr))) =
         (if Commands (NewUserRequest.Statements req) = [] then [] else [GenerateUsername opts]))"
proof -
  define opts where
    "opts = [credsutil_DisplayName (DisplayName (UsernameConfig req)) (if l then 5 else 13),
             credsutil_RoleName (RoleName (UsernameConfig req)) (if l then 4 else 10),
             credsutil_MaxLength (if l then 16 else 32)]"
  have g: "generateUsername (new l) env req tr =
      (case respond env tr (GenerateUsername opts) of
         Some err \<Rightarrow> ([], Some (Wrapf ''error generating username: {{err}}'' err))
       | None \<Rightarrow> (generated env tr opts, None),
       tr @ [GenerateUsername opts])"
    unfolding opts_def by (cases l) (simp_all add: generateUsername_step new_def Let_def)
  have a: "snd (generateUsername (new l) env req tr) = tr @ [GenerateUsername opts]"
    by (simp add: g)
  have b: "filter is_generate (drop (length tr) (snd (NewUser (new l) env req tr))) =
      (if Commands (NewUserRequest.Statements req) = [] then [] else [GenerateUsername opts])"
  proof (cases "Commands (NewUserRequest.Statements req) = []")
    case True
    then show ?thesis by (simp add: NewUser_def)
  next
    case False
    show ?thesis
    proof (cases "respond env tr (GenerateUsername opts)")
      case (Some err)
      then show ?thesis using False by (simp add: NewUser_def g is_generate_def)
    next
      case None
      define queryMap where
        "queryMap = [(''name'', generated env tr opts), (''username'', generated env tr opts),
                     (''password'', NewUserRequest.Password req),
                     (''expiration'', Format_2006_01_02_15_04_05_0700 (NewUserRequest.Expiration req))]"
      obtain ev where ev:
        "snd (executePreparedStatementsWithMap (new l) env (Commands (NewUserRequest.Statements req))
                queryMap (tr @ [GenerateUsername opts])) = (tr @ [GenerateUsername opts]) @ ev"
        "filter is_generate ev = []"
        using executePreparedStatementsWithMap_generates_nothing by blast
      have "snd (NewUser (new l) env req tr) =
          snd (executePreparedStatementsWithMap (new l) env (Commands (NewUserRequest.Statements req))
                 queryMap (tr @ [GenerateUsername opts]))"
        using False None
        by (simp add: NewUser_def g Let_def queryMap_def split: prod.splits result.splits option.splits)
      then show ?thesis using False ev by (simp add: is_generate_def)
    qed
  qed
  show ?thesis using a b unfolding opts_def Let_def by simp
qed

theorem generateUsername_scheme_budgets_witness:
  "snd (generateUsername (new True) env_all_succeed
          \<lparr>UsernameConfig = \<lparr>DisplayName = ''token'', RoleName = ''readonly''\<rparr>,
           Statements = \<lparr>Commands = [''SELECT 1'']\<rparr>,
           RollbackStatements = \<lparr>Commands = []\<rparr>,
           Password = ''N3w-Pa55w0rd'',
           Expiration = \<lparr>year = 2026, month = 11, day = 21, hour = 18, minute = 48, second = 5,
                          offset = 25200\<rparr>\<rparr> []) =
     [GenerateUsername [credsutil_DisplayName ''token'' 5, credsutil_RoleName ''readonly'' 4,
                        credsutil_MaxLength 16]]
   \<and> snd (generateUsername (new False) env_all_succeed
          \<lparr>UsernameConfig = \<lparr>DisplayName = ''token'', RoleName = ''readonly''\<rparr>,
           Statements = \<lparr>Commands = [''SELECT 1'']\<rparr>,
           RollbackStatements = \<lparr>Commands = []\<rparr>,
           Password = ''N3w-Pa55w0rd'',
           Expiration = \<lparr>year = 2026, month = 11, day = 21, hour = 18, minute = 48, second = 5,
                          offset = 25200\<rparr>\<rparr> []) =
     [GenerateUsername [credsutil_DisplayName ''token'' 13, credsutil_RoleName ''readonly'' 10,
                        credsutil_MaxLength 32]]"
  using
    generateUsername_scheme_budgets [where l = True and env = env_all_succeed and tr = "[]"
      and req = "\<lparr>UsernameConfig = \<lparr>DisplayName = ''token'', RoleName = ''readonly''\<rparr>,
           Statements = \<lparr>Commands = [''SELECT 1'']\<rparr>,
           RollbackStatements = \<lparr>Commands = []\<rparr>,
           Password = ''N3w-Pa55w0rd'',
           Expiration = \<lparr>year = 2026, month = 11, day = 21, hour = 18, minute = 48, second = 5,
                          offset = 25200\<rparr>\<rparr>"]
    generateUsername_scheme_budgets [where l = False and env = env_all_succeed and tr = "[]"
      and req = "\<lparr>UsernameConfig = \<lparr>DisplayName = ''token'', RoleName = ''readonly''\<rparr>,
           Statements = \<lparr>Commands = [''SELECT 1'']\<rparr>,
           RollbackStatements = \<lparr>Commands = []\<rparr>,
           Password = ''N3w-Pa55w0rd'',
           Expiration = \<lparr>year = 2026, month = 11, day = 21, hour = 18, minute = 48, second = 5,
                          offset = 25200\<rparr>\<rparr>"]
  by (simp add: Let_def)

subsection \<open>NewUser\<close>




subsection \<open>Validation and Initialize\<close>

text \<open>
  C3. The three validations come first. \<open>NewUser\<close> with no statement template,
  \<open>changeUserPassword\<close> with an empty username or an empty password, and
  \<open>UpdateUser\<close> with neither a password change nor an expiration change return
  their error with the trace as it was: no lock was taken, no connection asked for,
  nothing sent to the database.
\<close>

theorem validation_precedes_every_call:
  "(Commands (NewUserRequest.Statements nreq) = [] \<longrightarrow>
      NewUser m env nreq tr =
        (Returns (\<lparr>NewUserResponse.Username = []\<rparr>, Some ErrEmptyCreationStatement), tr))
   \<and> (username = [] \<or> password = [] \<longrightarrow>
      changeUserPassword m env username password rotateStatements tr =
        (Returns (Some (ErrorString ''must provide both username and password'')), tr))
   \<and> (UpdateUserRequest.Password ureq = None \<and> UpdateUserRequest.Expiration ureq = None \<longrightarrow>
      UpdateUser m env ureq tr = (Returns ((), Some (ErrorString ''no change requested'')), tr))"
  by (simp add: NewUser_def changeUserPassword_def UpdateUser_def)

theorem validation_precedes_every_call_witness:
  "NewUser (new False) env_all_succeed
      \<lparr>UsernameConfig = \<lparr>DisplayName = ''token'', RoleName = ''readonly''\<rparr>,
       Statements = \<lparr>Commands = []\<rparr>,
       RollbackStatements = \<lparr>Commands = []\<rparr>,
       Password = ''N3w-Pa55w0rd'',
       Expiration = \<lparr>year = 2026, month = 11, day = 21, hour = 18, minute = 48, second = 5,
                      offset = 25200\<rparr>\<rparr> [] =
     (Returns (\<lparr>NewUserResponse.Username = []\<rparr>, Some ErrEmptyCreationStatement), [])
   \<and> changeUserPassword (new False) env_all_succeed [] ''N3w-Pa55w0rd'' [] [] =
     (Returns (Some (ErrorString ''must provide both username and password'')), [])
   \<and> changeUserPassword (new False) env_all_succeed ''v_token_readonly_x7Kp2mQ9'' [] [] [] =
     (Returns (Some (ErrorString ''must provide both username and password'')), [])
   \<and> UpdateUser (new False) env_all_succeed
      \<lparr>UpdateUserRequest.Username = ''v_token_readonly_x7Kp2mQ9'',
       Password = None, Expiration = None\<rparr> [] =
     (Returns ((), Some (ErrorString ''no change requested'')), [])"
  using
    validation_precedes_every_call [of
      "\<lparr>UsernameConfig = \<lparr>DisplayName = ''token'', RoleName = ''readonly''\<rparr>,
        Statements = \<lparr>Commands = []\<rparr>,
        RollbackStatements = \<lparr>Commands = []\<rparr>,
        Password = ''N3w-Pa55w0rd'',
        Expiration = \<lparr>year = 2026, month = 11, day = 21, hour = 18, minute = 48, second = 5,
                       offset = 25200\<rparr>\<rparr>"
      "new False" env_all_succeed "[]" "[]" "''N3w-Pa55w0rd''" "[]"
      "\<lparr>UpdateUserRequest.Username = ''v_token_readonly_x7Kp2mQ9'',
        Password = None, Expiration = None\<rparr>"]
    validation_precedes_every_call [of _ "new False" env_all_succeed "[]"
      "''v_token_readonly_x7Kp2mQ9''" "[]" "[]"]
  by simp

text \<open>
  C10. \<open>Initialize\<close>: when the connection producer accepts the configuration, the
  response carries the configuration of the request, unchanged, and no error; when the
  producer fails, the response is the empty one (a nil \<open>Config\<close>) with the producer's
  error.
\<close>

theorem Initialize_response:
  "(producer_Initialize (InitializeRequest.Config req) (VerifyConnection req) = None \<longrightarrow>
      Initialize m producer_Initialize req =
        (\<lparr>InitializeResponse.Config = InitializeRequest.Config req\<rparr>, None))
   \<and> (\<forall>err. producer_Initialize (InitializeRequest.Config req) (VerifyConnection req) = Some err \<longrightarrow>
      Initialize m producer_Initialize req = (\<lparr>InitializeResponse.Config = None\<rparr>, Some err))"
  by (simp add: Initialize_def)

theorem Initialize_response_witness:
  "Initialize (new False) (\<lambda>config verify. None)
      \<lparr>InitializeRequest.Config = Some [''connection_url'' \<mapsto> ''root:pw@tcp(db:3306)/''],
       VerifyConnection = True\<rparr> =
     (\<lparr>InitializeResponse.Config = Some [''connection_url'' \<mapsto> ''root:pw@tcp(db:3306)/'']\<rparr>, None)
   \<and> Initialize (new False)
      (\<lambda>config verify. if verify then Some (DriverError ''connection refused'') else None)
      \<lparr>InitializeRequest.Config = Some [''connection_url'' \<mapsto> ''root:pw@tcp(db:3306)/''],
       VerifyConnection = True\<rparr> =
     (\<lparr>InitializeResponse.Config = None\<rparr>, Some (DriverError ''connection refused''))"
  using
    Initialize_response [of "\<lambda>config verify. None"
      "\<lparr>InitializeRequest.Config = Some [''connection_url'' \<mapsto> ''root:pw@tcp(db:3306)/''],
        VerifyConnection = True\<rparr>" "new False"]
    Initialize_response [of
      "\<lambda>config verify. if verify then Some (DriverError ''connection refused'') else None"
      "\<lparr>InitializeRequest.Config = Some [''connection_url'' \<mapsto> ''root:pw@tcp(db:3306)/''],
        VerifyConnection = True\<rparr>" "new False"]
  by simp

subsection \<open>The fallback path\<close>

text \<open>
  C1 (the code departs from the claim). The claim: when the preparation of a statement
  fails with error 1295 and the direct execution that follows fails too, the executor
  returns the execution error, the transaction rolled back, without touching the
  statement handle that was never prepared. The code calls \<open>stmt.Close()\<close> on that
  handle, which is nil: on the batch of the one statement
  \<open>REVOKE ALL PRIVILEGES, GRANT OPTION FROM ghost\<close> the executor panics with a nil
  pointer dereference. The deferred rollback and unlock still run, but no error is
  returned to the caller.
\<close>

theorem fallback_exec_failure_panics:
  "executePreparedStatementsWithMap (new False) env_revoke_fails
     [''REVOKE ALL PRIVILEGES, GRANT OPTION FROM ghost''] [] [] =
     (Panics NilPointerDereference,
      [Lock, Connection, BeginTx,
       PrepareContext ''REVOKE ALL PRIVILEGES, GRANT OPTION FROM ghost'',
       TxExecContext ''REVOKE ALL PRIVILEGES, GRANT OPTION FROM ghost'',
       Rollback, Unlock])"
  by (simp add: executePreparedStatementsWithMap_step query_loop_step env_revoke_fails_def
      Let_def TrimSpace_def isSpace_def QueryHelper_def is1295_def)

subsection \<open>Commit and rollback\<close>

text \<open>
  What the executor does with the transaction, for every environment: \<open>Commit\<close> is
  called exactly when the connection and the transaction were obtained and the loop
  ran to its end; once the transaction is open \<open>Rollback\<close> is called on every path
  (after a \<open>Commit\<close> too), and its answer never reaches the result; an error
  returned from inside the loop is the result of the executor.
\<close>

lemma executor_commits_iff_loop_completes:
  "Commit \<in> set (drop (length tr) (snd (executePreparedStatementsWithMap m env statements queryMap tr)))
   \<longleftrightarrow> (respond env (tr @ [Lock]) Connection = None
        \<and> respond env (tr @ [Lock, Connection]) BeginTx = None
        \<and> fst (stmt_loop env queryMap statements (tr @ [Lock, Connection, BeginTx])) = Returns None)"
proof -
  obtain r tr3 where l: "stmt_loop env queryMap statements (tr @ [Lock, Connection, BeginTx]) = (r, tr3)"
    by (cases "stmt_loop env queryMap statements (tr @ [Lock, Connection, BeginTx])")
  obtain ev where ev: "tr3 = (tr @ [Lock, Connection, BeginTx]) @ ev" "list_all is_stmt_call ev"
    using stmt_loop_trace [of env queryMap statements "tr @ [Lock, Connection, BeginTx]"] l by auto
  have "Commit \<notin> set ev"
    using ev(2) by (auto simp: list_all_iff)
  then show ?thesis
    using ev(1)
    by (simp add: executePreparedStatementsWithMap_step l split: option.splits result.splits)
qed

lemma executor_rolls_back_once_begun:
  assumes "respond env (tr @ [Lock]) Connection = None"
    and "respond env (tr @ [Lock, Connection]) BeginTx = None"
  shows "\<exists>ev. snd (executePreparedStatementsWithMap m env statements queryMap tr) =
      tr @ ev @ [Rollback, Unlock]"
proof -
  obtain r tr3 where l: "stmt_loop env queryMap statements (tr @ [Lock, Connection, BeginTx]) = (r, tr3)"
    by (cases "stmt_loop env queryMap statements (tr @ [Lock, Connection, BeginTx])")
  obtain ev where ev: "tr3 = (tr @ [Lock, Connection, BeginTx]) @ ev"
    using stmt_loop_trace [of env queryMap statements "tr @ [Lock, Connection, BeginTx]"] l by auto
  have "snd (executePreparedStatementsWithMap m env statements queryMap tr) =
      tr @ ([Lock, Connection, BeginTx] @ ev) @ [Rollback, Unlock]
    \<or> snd (executePreparedStatementsWithMap m env statements queryMap tr) =
      tr @ ([Lock, Connection, BeginTx] @ ev @ [Commit]) @ [Rollback, Unlock]"
    using assms ev
    by (simp add: executePreparedStatementsWithMap_step l split: option.splits result.splits)
  then show ?thesis by blast
qed

lemma query_loop_same_answers:
  assumes "\<And>h c. is_stmt_call c \<Longrightarrow> respond env' h c = respond env h c"
  shows "query_loop env' queryMap qs tr = query_loop env queryMap qs tr"
proof (induction qs arbitrary: tr)
  case Nil
  show ?case by simp
next
  case (Cons query rest)
  show ?case
    by (simp add: query_loop_step Let_def assms Cons.IH split: option.splits)
qed

lemma stmt_loop_same_answers:
  assumes "\<And>h c. is_stmt_call c \<Longrightarrow> respond env' h c = respond env h c"
  shows "stmt_loop env' queryMap stmts tr = stmt_loop env queryMap stmts tr"
proof (induction stmts arbitrary: tr)
  case Nil
  show ?case by simp
next
  case (Cons stmt rest)
  show ?case
    by (simp add: query_loop_same_answers [of env' env, OF assms] Cons.IH
        split: prod.splits result.splits option.splits)
qed

lemma executor_result_ignores_rollback:
  assumes "\<And>h c. c \<noteq> Rollback \<Longrightarrow> respond env' h c = respond env h c"
  shows "fst (executePreparedStatementsWithMap m env' statements queryMap tr) =
    fst (executePreparedStatementsWithMap m env statements queryMap tr)"
proof -
  have s: "stmt_loop env' queryMap statements tr' = stmt_loop env queryMap statements tr'" for tr'
    by (rule stmt_loop_same_answers) (auto intro: assms)
  have c: "respond env' h Connection = respond env h Connection"
    "respond env' h BeginTx = respond env h BeginTx"
    "respond env' h Commit = respond env h Commit" for h
    by (simp_all add: assms)
  show ?thesis
    by (simp add: executePreparedStatementsWithMap_step s c
        split: option.splits prod.splits result.splits)
qed

lemma executor_returns_the_loop_error:
  assumes "respond env (tr @ [Lock]) Connection = None"
    and "respond env (tr @ [Lock, Connection]) BeginTx = None"
    and "fst (stmt_loop env queryMap statements (tr @ [Lock, Connection, BeginTx])) = Returns (Some err)"
  shows "fst (executePreparedStatementsWithMap m env statements queryMap tr) = Returns (Some err)"
  using assms
  by (cases "stmt_loop env queryMap statements (tr @ [Lock, Connection, BeginTx])")
     (simp add: executePreparedStatementsWithMap_step)

text \<open>
  The one way out of the loop that is not a return: the preparation failed with error
  1295 and the direct execution failed. Whatever the environment and the statements
  that follow, the turn ends in a panic, after the two calls.
\<close>

lemma fallback_failure_panics:
  assumes "TrimSpace query \<noteq> []"
    and "respond env tr (PrepareContext (QueryHelper (TrimSpace query) queryMap)) = Some err"
    and "is1295 err"
    and "respond env (tr @ [PrepareContext (QueryHelper (TrimSpace query) queryMap)])
           (TxExecContext (QueryHelper (TrimSpace query) queryMap)) = Some err'"
  shows "query_loop env queryMap (query # rest) tr =
      (Panics NilPointerDereference,
       tr @ [PrepareContext (QueryHelper (TrimSpace query) queryMap),
             TxExecContext (QueryHelper (TrimSpace query) queryMap)])"
  using assms by (simp add: query_loop_step Let_def)

text \<open>
  C2 (the code departs from the claim). The claim: the executor commits exactly when
  every statement succeeded, and when a preparation (other than the 1295 case) or an
  execution fails, the transaction is rolled back and the error of the first failing
  statement is returned. The lemmas above give the commit, the rollback and the
  returned error on every path that returns. But a failing execution on the fallback
  path does not return: on the batch
  \<open>GRANT SELECT ON *.* TO reader; REVOKE ALL PRIVILEGES, GRANT OPTION FROM ghost\<close>,
  where the grant succeeds, the \<open>REVOKE\<close> cannot be prepared (1295) and its direct
  execution fails, the executor rolls back and panics; the caller never gets the
  error of the failing statement.
\<close>

theorem second_statement_fallback_failure_panics:
  "executePreparedStatementsWithMap (new False) env_revoke_fails
     [''GRANT SELECT ON *.* TO reader; REVOKE ALL PRIVILEGES, GRANT OPTION FROM ghost''] [] [] =
     (Panics NilPointerDereference,
      [Lock, Connection, BeginTx,
       PrepareContext ''GRANT SELECT ON *.* TO reader'',
       StmtExecContext ''GRANT SELECT ON *.* TO reader'',
       StmtClose ''GRANT SELECT ON *.* TO reader'',
       PrepareContext ''REVOKE ALL PRIVILEGES, GRANT OPTION FROM ghost'',
       TxExecContext ''REVOKE ALL PRIVILEGES, GRANT OPTION FROM ghost'',
       Rollback, Unlock])"
  by (simp add: executePreparedStatementsWithMap_step query_loop_step env_revoke_fails_def
      Let_def TrimSpace_def isSpace_def QueryHelper_def is1295_def)

subsection \<open>The lock\<close>

text \<open>
  C9 is about operations that run at the same time, which this sequential model cannot
  state. What it can state is the part of one operation: run from a state in which
  the mutex is free, every operation keeps the lock discipline. The calls it adds to
  the trace take the lock before the connection is asked for, make every call on the
  connection and the transaction (commit and rollback included) while holding it, and
  release it last. That concurrent operations exclude each other follows from this
  only together with the semantics of the mutex and of goroutines.
\<close>

lemma guarded_stmt_calls:
  "list_all is_stmt_call ev \<Longrightarrow> guarded True (ev @ rest) = guarded True rest"
  by (induction ev) (auto simp: is_stmt_call_def split: call.splits)

lemma guarded_section:
  assumes "list_all is_stmt_call ev"
    and "added \<in> {[Lock, Connection, Unlock],
                [Lock, Connection, BeginTx, Unlock],
                [Lock, Connection, BeginTx] @ ev @ [Rollback, Unlock],
                [Lock, Connection, BeginTx] @ ev @ [Commit, Rollback, Unlock]}"
  shows "guarded False added"
  using assms(2) guarded_stmt_calls [OF assms(1)] by auto

lemma executePreparedStatementsWithMap_guarded:
  "guarded False (drop (length tr) (snd (executePreparedStatementsWithMap m env statements queryMap tr)))"
proof -
  obtain ev where ev: "list_all is_stmt_call ev"
    "snd (executePreparedStatementsWithMap m env statements queryMap tr) \<in>
       {tr @ [Lock, Connection, Unlock],
        tr @ [Lock, Connection, BeginTx, Unlock],
        tr @ [Lock, Connection, BeginTx] @ ev @ [Rollback, Unlock],
        tr @ [Lock, Connection, BeginTx] @ ev @ [Commit, Rollback, Unlock]}"
    using executePreparedStatementsWithMap_trace by blast
  have "drop (length tr) (snd (executePreparedStatementsWithMap m env statements queryMap tr)) \<in>
      {[Lock, Connection, Unlock],
       [Lock, Connection, BeginTx, Unlock],
       [Lock, Connection, BeginTx] @ ev @ [Rollback, Unlock],
       [Lock, Connection, BeginTx] @ ev @ [Commit, Rollback, Unlock]}"
    using ev(2) by auto
  then show ?thesis using ev(1) by (rule guarded_section [rotated])
qed

lemma DeleteUser_guarded:
  "guarded False (drop (length tr) (snd (DeleteUser m env req tr)))"
proof -
  obtain ev where ev: "list_all is_stmt_call ev"
    "snd (DeleteUser m env req tr) \<in>
       {tr @ [Lock, Connection, Unlock],
        tr @ [Lock, Connection, BeginTx, Unlock],
        tr @ [Lock, Connection, BeginTx] @ ev @ [Rollback, Unlock],
        tr @ [Lock, Connection, BeginTx] @ ev @ [Commit, Rollback, Unlock]}"
    using DeleteUser_trace by blast
  have "drop (length tr) (snd (DeleteUser m env req tr)) \<in>
      {[Lock, Connection, Unlock],
       [Lock, Connection, BeginTx, Unlock],
       [Lock, Connection, BeginTx] @ ev @ [Rollback, Unlock],
       [Lock, Connection, BeginTx] @ ev @ [Commit, Rollback, Unlock]}"
    using ev(2) by auto
  then show ?thesis using ev(1) by (rule guarded_section [rotated])
qed

lemma changeUserPassword_guarded:
  "guarded False (drop (length tr) (snd (changeUserPassword m env username password rotateStatements tr)))"
proof (cases "username = [] \<or> password = []")
  case True
  then show ?thesis by (simp add: changeUserPassword_def)
next
  case False
  define stmts where
    "stmts = (if length rotateStatements = 0 then [defaultMySQLRotateCredentialsSQL]
              else rotateStatements)"
  have "snd (changeUserPassword m env username password rotateStatements tr) =
      snd (executePreparedStatementsWithMap m env stmts
             [(''name'', username), (''username'', username), (''password'', password)] tr)"
    using False
    by (simp add: changeUserPassword_def Let_def stmts_def
        split: prod.splits result.splits option.splits)
  then show ?thesis by (simp add: executePreparedStatementsWithMap_guarded)
qed

lemma UpdateUser_guarded:
  "guarded False (drop (length tr) (snd (UpdateUser m env req tr)))"
proof (cases "UpdateUserRequest.Password req")
  case None
  then show ?thesis by (simp add: UpdateUser_def)
next
  case (Some pw)
  have "snd (UpdateUser m env req tr) =
      snd (changeUserPassword m env (UpdateUserRequest.Username req) (NewPassword pw)
             (Commands (ChangePassword.Statements pw)) tr)"
    using Some by (simp add: UpdateUser_def split: prod.splits result.splits option.splits)
  then show ?thesis by (simp add: changeUserPassword_guarded)
qed

lemma NewUser_guarded:
  "guarded False (drop (length tr) (snd (NewUser m env req tr)))"
proof (cases "Commands (NewUserRequest.Statements req) = []")
  case True
  then show ?thesis by (simp add: NewUser_def)
next
  case False
  obtain name gerr tr1 where g: "generateUsername m env req tr = ((name, gerr), tr1)"
    by (metis surj_pair)
  obtain opts where tr1: "tr1 = tr @ [GenerateUsername opts]"
    using g by (auto simp: generateUsername_step Let_def)
  show ?thesis
  proof (cases gerr)
    case (Some err)
    then show ?thesis using False g tr1 by (simp add: NewUser_def)
  next
    case None
    define queryMap where
      "queryMap = [(''name'', name), (''username'', name),
                   (''password'', NewUserRequest.Password req),
                   (''expiration'', Format_2006_01_02_15_04_05_0700 (NewUserRequest.Expiration req))]"
    have s: "snd (NewUser m env req tr) =
        snd (executePreparedStatementsWithMap m env (Commands (NewUserRequest.Statements req))
               queryMap tr1)"
      using False None g
      by (simp add: NewUser_def Let_def queryMap_def split: prod.splits result.splits option.splits)
    obtain ev where ev:
      "snd (executePreparedStatementsWithMap m env (Commands (NewUserRequest.Statements req))
              queryMap tr1) = tr1 @ ev"
      using executePreparedStatementsWithMap_generates_nothing by blast
    have "guarded False ev"
      using executePreparedStatementsWithMap_guarded [of tr1 m env
          "Commands (NewUserRequest.Statements req)" queryMap] ev by simp
    then show ?thesis using ev unfolding s tr1 by simp
  qed
qed

end
